theory Spec2Isabelle
  imports Complex_Main "HOL-Library.Log_Nat"
begin

section \<open>Audiobook keyword research: the page component of \<open>src/app/page.js\<close>\<close>

text \<open>
  The component keeps its data in React state cells and derives everything else from them on
  each render. The embedding below follows the source function by function.

  Conventions of the embedding.
  \<^item> The numbers that the component stores are integers that binary64 holds exactly
    (counts, HTTP status codes, popularity values); they are modelled as \<open>int\<close>.
    \<open>Math.round\<close> is \<open>round\<close> (\<open>round x = \<lfloor>x + 1/2\<rfloor>\<close>, ties towards \<open>+\<infinity>\<close>).
  \<^item> A division is rounded to binary64 (\<open>binary64\<close> below), and so is a product of its
    result. Where the code rounds a single quotient of integers at once
    (\<open>Math.round(a / b)\<close>), the quotient is taken exactly: for numerators below \<open>2^52\<close>
    the binary64 quotient rounds to the same integer (\<open>round_binary64_quotient\<close>). A
    division by zero, which JavaScript answers with \<open>NaN\<close> or an infinity, is written out.
  \<^item> A property that an object literal does not set reads as \<open>undefined\<close>; such fields
    are \<open>option\<close>-valued, with \<open>None\<close> for \<open>undefined\<close>.
  \<^item> Strings are sequences of bytes, the UTF-8 form of the text.
\<close>

subsection \<open>JavaScript values\<close>

datatype jsnum = Num int | NaN | PosInfinity | NegInfinity

text \<open>
  Rounding to binary64: to the nearest number with a significand of 53 bits, ties to the
  even significand. \<open>expo x\<close> is the exponent of a positive \<open>x\<close>, with
  \<open>2 powi expo x \<le> x < 2 powi (expo x + 1)\<close>, and \<open>rne\<close> rounds to the nearest integer,
  ties to even. The exponent range of binary64 is not modelled: quotients and products of
  integers below \<open>2^53\<close> stay inside it.
\<close>

definition expo :: "rat \<Rightarrow> int" where
  "expo x = (let (a, b) = quotient_of x; k = bitlen a - bitlen b
             in if 2 powi k \<le> x then k else k - 1)"

definition rne :: "rat \<Rightarrow> int" where
  "rne y = (let f = \<lfloor>y\<rfloor>; r = y - of_int f
            in if r < 1 / 2 then f else if 1 / 2 < r then f + 1
               else if even f then f else f + 1)"

definition binary64 :: "rat \<Rightarrow> rat" where
  "binary64 x = (if x = 0 then 0
                 else (let u = 2 powi (expo \<bar>x\<bar> - 52) in of_int (rne (x / u)) * u))"

text \<open>\<open>Math.round(n / d)\<close> for integers \<open>n\<close> and \<open>d\<close>.\<close>

definition round_quotient :: "int \<Rightarrow> int \<Rightarrow> jsnum" where
  "round_quotient n d =
     (if d = 0 then (if 0 < n then PosInfinity else if n < 0 then NegInfinity else NaN)
      else Num (round (of_int n / of_int d :: rat)))"

text \<open>
  \<open>Math.round(n / d * k)\<close> for integers \<open>n\<close>, \<open>d\<close> and a positive integer \<open>k\<close>: the
  quotient is rounded to binary64, then the product.
\<close>

definition round_scaled :: "int \<Rightarrow> int \<Rightarrow> int \<Rightarrow> jsnum" where
  "round_scaled n d k =
     (if d = 0 then (if 0 < n then PosInfinity else if n < 0 then NegInfinity else NaN)
      else Num (round (binary64 (binary64 (of_int n / of_int d) * of_int k))))"

text \<open>\<open>v || d\<close> on a number that may be \<open>undefined\<close>: \<open>undefined\<close> and \<open>0\<close> are falsy.\<close>

definition or_default :: "int option \<Rightarrow> int \<Rightarrow> int" where
  "or_default v d = (case v of None \<Rightarrow> d | Some n \<Rightarrow> if n = 0 then d else n)"

text \<open>Truthiness of a string that may be \<open>undefined\<close>: \<open>undefined\<close> and \<open>''\<close> are falsy.\<close>

definition truthy :: "string option \<Rightarrow> bool" where
  "truthy v = (case v of None \<Rightarrow> False | Some s \<Rightarrow> s \<noteq> [])"

text \<open>
  Decimal rendering of an integer, as string concatenation and template literals do for
  the integers below \<open>10^21\<close>, which JavaScript prints digit by digit.
\<close>

fun show_nat :: "nat \<Rightarrow> string" where
  "show_nat n = (if n < 10 then [''0123456789'' ! n]
                 else show_nat (n div 10) @ [''0123456789'' ! (n mod 10)])"

declare show_nat.simps [simp del]

definition show_int :: "int \<Rightarrow> string" where
  "show_int i = (if i < 0 then CHR ''-'' # show_nat (nat (- i)) else show_nat (nat i))"

text \<open>
  \<open>String.prototype.trim\<close> removes white space and line terminators from both ends:
  U+0009 to U+000D, U+0020, U+00A0, U+1680, U+2000 to U+200A, U+2028, U+2029, U+202F,
  U+205F, U+3000 and U+FEFF, here in their UTF-8 form.
\<close>

definition white_space :: "string list" where
  "white_space =
     [[CHR 0x09], [CHR 0x0A], [CHR 0x0B], [CHR 0x0C], [CHR 0x0D], [CHR 0x20],
      [CHR 0xC2, CHR 0xA0],
      [CHR 0xE1, CHR 0x9A, CHR 0x80],
      [CHR 0xE2, CHR 0x80, CHR 0x80], [CHR 0xE2, CHR 0x80, CHR 0x81],
      [CHR 0xE2, CHR 0x80, CHR 0x82], [CHR 0xE2, CHR 0x80, CHR 0x83],
      [CHR 0xE2, CHR 0x80, CHR 0x84], [CHR 0xE2, CHR 0x80, CHR 0x85],
      [CHR 0xE2, CHR 0x80, CHR 0x86], [CHR 0xE2, CHR 0x80, CHR 0x87],
      [CHR 0xE2, CHR 0x80, CHR 0x88], [CHR 0xE2, CHR 0x80, CHR 0x89],
      [CHR 0xE2, CHR 0x80, CHR 0x8A],
      [CHR 0xE2, CHR 0x80, CHR 0xA8], [CHR 0xE2, CHR 0x80, CHR 0xA9],
      [CHR 0xE2, CHR 0x80, CHR 0xAF],
      [CHR 0xE2, CHR 0x81, CHR 0x9F],
      [CHR 0xE3, CHR 0x80, CHR 0x80],
      [CHR 0xEF, CHR 0xBB, CHR 0xBF]]"

text \<open>Removing from the front of \<open>s\<close> every leading occurrence of one of the sequences \<open>ws\<close>.\<close>

function strip :: "string list \<Rightarrow> string \<Rightarrow> string" where
  "strip ws s =
     (case find (\<lambda>w. w \<noteq> [] \<and> take (length w) s = w) ws of
        None \<Rightarrow> s
      | Some w \<Rightarrow> strip ws (drop (length w) s))"
  by pat_completeness auto
termination
proof (relation "measure (\<lambda>(ws, s). length s)")
  show "wf (measure (\<lambda>(ws, s). length s))" by simp
next
  fix ws :: "string list" and s w :: string
  assume "find (\<lambda>w. w \<noteq> [] \<and> take (length w) s = w) ws = Some w"
  then have w: "w \<noteq> []" and t: "take (length w) s = w"
    by (auto simp: find_Some_iff)
  from w have "0 < length w" by simp
  moreover have "length w \<le> length s"
  proof -
    have "length (take (length w) s) = min (length s) (length w)" by simp
    with t show ?thesis by simp
  qed
  ultimately have "length s - length w < length s" by arith
  then show "((ws, drop (length w) s), (ws, s)) \<in> measure (\<lambda>(ws, s). length s)"
    by simp
qed

declare strip.simps [simp del]

definition trim :: "string \<Rightarrow> string" where
  "trim s = rev (strip (map rev white_space) (rev (strip white_space s)))"

text \<open>\<open>s.split(c)\<close> for a one-character separator: the empty string splits into \<open>['']\<close>.\<close>

fun split :: "char \<Rightarrow> string \<Rightarrow> string list" where
  "split c [] = [[]]"
| "split c (a # s) =
     (if a = c then [] # split c s
      else (case split c s of [] \<Rightarrow> [[a]] | w # ws \<Rightarrow> (a # w) # ws))"

text \<open>\<open>xs.join(sep)\<close>.\<close>

fun join :: "string \<Rightarrow> string list \<Rightarrow> string" where
  "join sep [] = []"
| "join sep [s] = s"
| "join sep (s # t # ss) = s @ sep @ join sep (t # ss)"

subsection \<open>Data model\<close>

text \<open>
  One entry of \<open>results\<close>. The success branch of \<open>handleSearch\<close> sets every field; the
  \<open>catch\<close> branch sets only \<open>keyword\<close>, \<open>audiobooks\<close>, \<open>avgPopularity\<close>,
  \<open>estimatedTrendsInterest\<close>, \<open>error\<close> and \<open>timestamp\<close>. The chart fields \<open>x\<close>, \<open>y\<close>
  and \<open>size\<close> of the source are \<open>chartX\<close>, \<open>chartY\<close> and \<open>chartSize\<close> here.
\<close>

record result =
  keyword :: string
  audiobooks :: int
  avgPopularity :: int
  estimatedTrendsInterest :: int
  popularityTrend :: "int option"
  supplyTrend :: "int option"
  error :: "string option"
  timestamp :: string
  chartX :: "int option"
  chartY :: "int option"
  chartSize :: "int option"

text \<open>The test \<open>r.error\<close> that every consumer of a result uses to tell a failed entry.\<close>

definition failed :: "result \<Rightarrow> bool" where
  "failed r = truthy (error r)"

text \<open>
  The state cells that \<open>handleSearch\<close> reads or writes. The cell \<open>error\<close> of the component
  is \<open>errorText\<close> here, since \<open>error\<close> names the field of a result, and the cell
  \<open>keywords\<close> is \<open>keywordsText\<close>.
\<close>

record ui_state =
  accessToken :: string
  keywordsText :: string
  results :: "result list"
  previousResults :: "result list"
  isSearching :: bool
  progress :: int
  errorText :: string
  showMatrix :: bool

subsection \<open>The search endpoint\<close>

text \<open>
  The body of a successful response is a JSON object; \<open>audiobooks\<close>, \<open>items\<close>, \<open>total\<close>
  and each item's \<open>popularity\<close> may be missing. \<open>JsonThrows\<close> stands for every way in
  which reading the body throws inside the \<open>try\<close> block, with the message of what is thrown:
  \<open>response.json()\<close> rejects, or the parsed value or one of the items is \<open>null\<close>.
\<close>

datatype book = Book (popularity: "int option")

datatype page = Page (items: "book list option") (total: "int option")

datatype search_data = SearchData (audiobooksPage: "page option")

datatype body = JsonThrows string | Json search_data

text \<open>
  What \<open>await fetch(...)\<close> gives: a rejection with a message, or a response with a status
  and a body. \<open>response.ok\<close> is the Fetch standard's test that the status is in 200..299.
\<close>

datatype fetch_outcome = FetchThrows string | Response int body

definition response_ok :: "int \<Rightarrow> bool" where
  "response_ok status = (200 \<le> status \<and> status \<le> 299)"

text \<open>
  The world outside the component: the answer to the \<open>i\<close>-th request of a run, for a bearer
  token and a keyword, and the date string of \<open>new Date().toLocaleDateString()\<close> there.
\<close>

record env =
  fetch :: "nat \<Rightarrow> string \<Rightarrow> string \<Rightarrow> fetch_outcome"
  today :: "nat \<Rightarrow> string"

subsection \<open>\<open>handleSearch\<close>\<close>

text \<open>
  \<open>handleSearch\<close> is a closure of one render: \<open>accessToken\<close>, \<open>keywords\<close>, \<open>results\<close> and
  \<open>previousResults\<close> are the constants of that render for as long as the call runs, whatever
  the setters store meanwhile. The state of that render is the argument \<open>c\<close> below; the state
  that the setters build up is threaded through the loop and returned.
\<close>

definition keywordList :: "ui_state \<Rightarrow> string list" where
  "keywordList c = filter (\<lambda>k. 0 < length k) (map trim (split (CHR 0x0A) (keywordsText c)))"

text \<open>
  The object pushed on the success path, from the parsed body \<open>data\<close>. The field names of
  a result are taken, so the locals \<open>audiobooks\<close>, \<open>avgPopularity\<close>,
  \<open>estimatedTrendsInterest\<close>, \<open>popularityTrend\<close> and \<open>supplyTrend\<close> of the source are
  \<open>books\<close>, \<open>avgPop\<close>, \<open>interest\<close>, \<open>popTrend\<close> and \<open>supTrend\<close> here.
\<close>

definition success_result :: "env \<Rightarrow> ui_state \<Rightarrow> nat \<Rightarrow> string \<Rightarrow> search_data \<Rightarrow> result" where
  "success_result e c i kw data =
     (let books = (case audiobooksPage data of None \<Rightarrow> []
                   | Some p \<Rightarrow> (case items p of None \<Rightarrow> [] | Some bs \<Rightarrow> bs));
          count = (case audiobooksPage data of None \<Rightarrow> 0 | Some p \<Rightarrow> or_default (total p) 0);
          avgPop = (if 0 < length books
                    then round (of_int (foldl (\<lambda>sum b. sum + or_default (popularity b) 50) 0 books)
                                / of_nat (length books) :: rat)
                    else 50);
          interest = min 100 (round (of_int count / 5 :: rat));
          prevResult = find (\<lambda>r. keyword r = kw) (previousResults c);
          popTrend = (case prevResult of Some p \<Rightarrow> avgPop - avgPopularity p | None \<Rightarrow> 0);
          supTrend = (case prevResult of Some p \<Rightarrow> count - audiobooks p | None \<Rightarrow> 0)
      in \<lparr> keyword = kw, audiobooks = count, avgPopularity = avgPop,
           estimatedTrendsInterest = interest,
           popularityTrend = Some popTrend, supplyTrend = Some supTrend,
           error = None, timestamp = today e i,
           chartX = Some count, chartY = Some interest, chartSize = Some (avgPop * 2) \<rparr>)"

text \<open>The object pushed in the \<open>catch\<close> branch, from the message of what was thrown.\<close>

definition failure_result :: "env \<Rightarrow> nat \<Rightarrow> string \<Rightarrow> string \<Rightarrow> result" where
  "failure_result e i kw msg =
     \<lparr> keyword = kw, audiobooks = - 1, avgPopularity = 0, estimatedTrendsInterest = 0,
       popularityTrend = None, supplyTrend = None,
       error = Some msg, timestamp = today e i,
       chartX = None, chartY = None, chartSize = None \<rparr>"

text \<open>
  The body of the \<open>try\<close> block for one keyword ends in one of three ways: something is
  thrown, the function returns on status 401, or a result is pushed.
\<close>

datatype attempt = Thrown string | Unauthorized | Pushed result

definition try_keyword :: "env \<Rightarrow> ui_state \<Rightarrow> nat \<Rightarrow> string \<Rightarrow> attempt" where
  "try_keyword e c i kw =
     (case fetch e i (accessToken c) kw of
        FetchThrows msg \<Rightarrow> Thrown msg
      | Response status b \<Rightarrow>
          if \<not> response_ok status then
            (if status = 401 then Unauthorized
             else Thrown (''API error: '' @ show_int status))
          else (case b of
                  JsonThrows msg \<Rightarrow> Thrown msg
                | Json data \<Rightarrow> Pushed (success_result e c i kw data)))"

text \<open>\<open>Math.round(((i + 1) / keywordList.length) * 100)\<close>; the loop runs only when the list is not empty.\<close>

definition progress_of :: "nat \<Rightarrow> nat \<Rightarrow> int" where
  "progress_of i n = round (binary64 (binary64 (of_nat (i + 1) / of_nat n) * 100))"

text \<open>
  The \<open>for\<close> loop from index \<open>i\<close> on: \<open>ks\<close> are the keywords not yet visited, \<open>acc\<close> is
  \<open>searchResults\<close>, \<open>n\<close> is \<open>keywordList.length\<close> and \<open>s\<close> the state stored so far. After
  the loop come \<open>setIsSearching(false)\<close> and \<open>setShowMatrix(true)\<close>.
\<close>

fun search_loop ::
  "env \<Rightarrow> ui_state \<Rightarrow> nat \<Rightarrow> nat \<Rightarrow> string list \<Rightarrow> result list \<Rightarrow> ui_state \<Rightarrow> ui_state" where
  "search_loop e c n i [] acc s = s\<lparr>isSearching := False, showMatrix := True\<rparr>"
| "search_loop e c n i (kw # ks) acc s =
     (case try_keyword e c i kw of
        Unauthorized \<Rightarrow> s\<lparr>errorText := ''Token expired. Request a new one.'', isSearching := False\<rparr>
      | Pushed r \<Rightarrow>
          search_loop e c n (i + 1) ks (acc @ [r])
            (s\<lparr>results := acc @ [r], progress := progress_of i n\<rparr>)
      | Thrown msg \<Rightarrow>
          search_loop e c n (i + 1) ks (acc @ [failure_result e i kw msg])
            (s\<lparr>results := acc @ [failure_result e i kw msg], progress := progress_of i n\<rparr>))"

definition handleSearch :: "env \<Rightarrow> ui_state \<Rightarrow> ui_state" where
  "handleSearch e c =
     (if trim (accessToken c) = [] then c\<lparr>errorText := ''Please request an access token first''\<rparr>
      else if length (keywordList c) = 0 then c\<lparr>errorText := ''Please enter at least one keyword''\<rparr>
      else search_loop e c (length (keywordList c)) 0 (keywordList c) []
             (c\<lparr>previousResults := results c, isSearching := True, errorText := [],
                results := [], progress := 0\<rparr>))"

subsection \<open>Values derived on each render\<close>

definition getOpportunityScore :: "result \<Rightarrow> jsnum option" where
  "getOpportunityScore item =
     (if failed item then None
      else Some (round_scaled (estimatedTrendsInterest item) (audiobooks item + 1) 100))"

definition totalAudiobooks :: "result list \<Rightarrow> int" where
  "totalAudiobooks rs = foldl (\<lambda>sum r. sum + (if 0 < audiobooks r then audiobooks r else 0)) 0 rs"

definition avgPopularityScore :: "result list \<Rightarrow> jsnum" where
  "avgPopularityScore rs =
     (if 0 < length rs
      then round_quotient (foldl (\<lambda>sum r. sum + or_default (Some (avgPopularity r)) 0) 0 rs)
             (int (length (filter (\<lambda>r. \<not> failed r) rs)))
      else Num 0)"

definition validResults :: "result list \<Rightarrow> nat" where
  "validResults rs = length (filter (\<lambda>r. \<not> failed r) rs)"

text \<open>\<open>score || -1\<close>: \<open>null\<close>, \<open>0\<close> and \<open>NaN\<close> are falsy.\<close>

definition or_minus_one :: "jsnum option \<Rightarrow> jsnum" where
  "or_minus_one v = (case v of None \<Rightarrow> Num (- 1) | Some (Num n) \<Rightarrow> if n = 0 then Num (- 1) else Num n
                     | Some NaN \<Rightarrow> Num (- 1) | Some w \<Rightarrow> w)"

text \<open>Subtraction of numbers.\<close>

fun js_minus :: "jsnum \<Rightarrow> jsnum \<Rightarrow> jsnum" where
  "js_minus (Num a) (Num b) = Num (a - b)"
| "js_minus NaN _ = NaN"
| "js_minus _ NaN = NaN"
| "js_minus PosInfinity PosInfinity = NaN"
| "js_minus NegInfinity NegInfinity = NaN"
| "js_minus PosInfinity _ = PosInfinity"
| "js_minus NegInfinity _ = NegInfinity"
| "js_minus (Num a) PosInfinity = NegInfinity"
| "js_minus (Num a) NegInfinity = PosInfinity"

text \<open>The comparator handed to \<open>sort\<close>.\<close>

definition compareOpportunity :: "result \<Rightarrow> result \<Rightarrow> jsnum" where
  "compareOpportunity a b =
     (let scoreA = or_minus_one (getOpportunityScore a);
          scoreB = or_minus_one (getOpportunityScore b)
      in js_minus scoreB scoreA)"

text \<open>
  \<open>Array.prototype.sort\<close> is stable and puts \<open>a\<close> after \<open>b\<close> when the comparator's value for
  \<open>(a, b)\<close> is positive; a value that is zero or \<open>NaN\<close> leaves the two in their order. Stable
  insertion from the right is the model: an element moves behind exactly the later elements
  that the comparator puts before it.
\<close>

definition positive :: "jsnum \<Rightarrow> bool" where
  "positive v = (case v of Num n \<Rightarrow> 0 < n | PosInfinity \<Rightarrow> True | _ \<Rightarrow> False)"

fun insert_by :: "('a \<Rightarrow> 'a \<Rightarrow> jsnum) \<Rightarrow> 'a \<Rightarrow> 'a list \<Rightarrow> 'a list" where
  "insert_by cmp a [] = [a]"
| "insert_by cmp a (b # bs) = (if positive (cmp a b) then b # insert_by cmp a bs else a # b # bs)"

definition sort_by :: "('a \<Rightarrow> 'a \<Rightarrow> jsnum) \<Rightarrow> 'a list \<Rightarrow> 'a list" where
  "sort_by cmp xs = foldr (insert_by cmp) xs []"

definition sortedByOpportunity :: "result list \<Rightarrow> result list" where
  "sortedByOpportunity rs = sort_by compareOpportunity rs"

definition topOpportunities :: "result list \<Rightarrow> result list" where
  "topOpportunities rs = take 10 (filter (\<lambda>r. \<not> failed r) (sortedByOpportunity rs))"

subsection \<open>\<open>downloadCSV\<close>\<close>

text \<open>A cell of a row before it is put between quotes: a string, a number or \<open>undefined\<close>.\<close>

datatype cell = Str string | Number int | Undefined

text \<open>The text that the template literal makes of a cell.\<close>

fun cell_text :: "cell \<Rightarrow> string" where
  "cell_text (Str s) = s"
| "cell_text (Number n) = show_int n"
| "cell_text Undefined = ''undefined''"

text \<open>\<open>t > 0 ? '+' + t : t\<close>; the comparison is false for \<open>undefined\<close>.\<close>

definition trend_cell :: "int option \<Rightarrow> cell" where
  "trend_cell t = (case t of None \<Rightarrow> Undefined
                   | Some n \<Rightarrow> if 0 < n then Str (''+'' @ show_int n) else Number n)"

definition csv_headers :: "string list" where
  "csv_headers = [''Keyword'', ''Audiobooks Found'', ''Avg Popularity'', ''Estimated Trends Interest'',
                  ''Popularity Trend'', ''Supply Trend'', ''Status'']"

definition csv_row :: "result \<Rightarrow> cell list" where
  "csv_row r =
     [Str (keyword r),
      if failed r then Str ''Error'' else Number (audiobooks r),
      if failed r then Str ''-'' else Number (avgPopularity r),
      if failed r then Str ''-'' else Number (estimatedTrendsInterest r),
      if failed r then Str ''-'' else trend_cell (popularityTrend r),
      if failed r then Str ''-'' else trend_cell (supplyTrend r),
      if failed r then Str (case error r of Some m \<Rightarrow> m | None \<Rightarrow> []) else Str ''OK'']"

definition quote_cell :: "cell \<Rightarrow> string" where
  "quote_cell c = [CHR 0x22] @ cell_text c @ [CHR 0x22]"

definition csv_line :: "result \<Rightarrow> string" where
  "csv_line r = join '','' (map quote_cell (csv_row r))"

text \<open>The text handed to the \<open>Blob\<close>.\<close>

definition downloadCSV :: "result list \<Rightarrow> string" where
  "downloadCSV rs = join [CHR 0x0A] (join '','' csv_headers # map csv_line rs)"

subsection \<open>Notions used to state the properties of a run\<close>

text \<open>The request for keyword \<open>kw\<close> at index \<open>i\<close> is answered with status 401.\<close>

definition answers_401 :: "env \<Rightarrow> ui_state \<Rightarrow> nat \<Rightarrow> string \<Rightarrow> bool" where
  "answers_401 e c i kw =
     (case fetch e i (accessToken c) kw of Response status b \<Rightarrow> status = 401 | FetchThrows m \<Rightarrow> False)"

text \<open>What the loop body appends to \<open>searchResults\<close> for one keyword, if anything.\<close>

definition settled :: "env \<Rightarrow> ui_state \<Rightarrow> nat \<Rightarrow> string \<Rightarrow> result option" where
  "settled e c i kw =
     (case try_keyword e c i kw of
        Unauthorized \<Rightarrow> None
      | Pushed r \<Rightarrow> Some r
      | Thrown msg \<Rightarrow> Some (failure_result e i kw msg))"

text \<open>The entries that the loop appends from index \<open>i\<close> on, up to the first status 401.\<close>

fun completed :: "env \<Rightarrow> ui_state \<Rightarrow> nat \<Rightarrow> string list \<Rightarrow> result list" where
  "completed e c i [] = []"
| "completed e c i (kw # ks) =
     (case try_keyword e c i kw of
        Unauthorized \<Rightarrow> []
      | Pushed r \<Rightarrow> r # completed e c (i + 1) ks
      | Thrown msg \<Rightarrow> failure_result e i kw msg # completed e c (i + 1) ks)"

text \<open>
  The request for keyword \<open>kw\<close> at index \<open>i\<close> ends in an error other than status 401:
  \<open>fetch\<close> rejects, the status is outside 200..299 and not 401, or the body cannot be read.
  \<open>msg\<close> is the message of what is thrown.
\<close>

definition request_fails :: "env \<Rightarrow> ui_state \<Rightarrow> nat \<Rightarrow> string \<Rightarrow> string \<Rightarrow> bool" where
  "request_fails e c i kw msg =
     (case fetch e i (accessToken c) kw of
        FetchThrows m \<Rightarrow> msg = m
      | Response status b \<Rightarrow>
          if \<not> response_ok status then status \<noteq> 401 \<and> msg = ''API error: '' @ show_int status
          else (case b of JsonThrows m \<Rightarrow> msg = m | Json data \<Rightarrow> False))"

text \<open>The first line of the export: the seven column names joined by commas.\<close>

definition header_line :: string where
  "header_line = ''Keyword,Audiobooks Found,Avg Popularity,Estimated Trends Interest,Popularity Trend,Supply Trend,Status''"

text \<open>The number of double quotes in a text.\<close>

definition count_quotes :: "string \<Rightarrow> nat" where
  "count_quotes s = length (filter (\<lambda>x. x = CHR 0x22) s)"

subsection \<open>Example data\<close>

definition ex_body :: "int option list \<Rightarrow> int \<Rightarrow> body" where
  "ex_body ps t = Json (SearchData (Some (Page (Some (map Book ps)) (Some t))))"

definition ex_state :: "string \<Rightarrow> result list \<Rightarrow> result list \<Rightarrow> ui_state" where
  "ex_state kws rs prs =
     \<lparr> accessToken = ''token'', keywordsText = kws, results = rs, previousResults = prs,
       isSearching = False, progress = 0, errorText = [], showMatrix = False \<rparr>"

definition five_keywords :: ui_state where
  "five_keywords = ex_state (''a'' @ [CHR 0x0A] @ ''b'' @ [CHR 0x0A] @ '' c '' @ [CHR 0x0A] @ ''d'' @ [CHR 0x0A] @ ''e'') [] []"

definition env_third_401 :: env where
  "env_third_401 =
     \<lparr> fetch = (\<lambda>i tok kw. if i = 2 then Response 401 (JsonThrows []) else Response 200 (ex_body [Some 60] 12)),
       today = (\<lambda>i. ''11/2/2026'') \<rparr>"

definition three_keywords :: ui_state where
  "three_keywords = ex_state (''a'' @ [CHR 0x0A] @ ''b'' @ [CHR 0x0A] @ ''c'') [] []"

definition env_second_500 :: env where
  "env_second_500 =
     \<lparr> fetch = (\<lambda>i tok kw. if i = 1 then Response 500 (JsonThrows []) else Response 200 (ex_body [Some 60] 12)),
       today = (\<lambda>i. ''11/2/2026'') \<rparr>"

definition env_answer :: "int option list \<Rightarrow> int \<Rightarrow> env" where
  "env_answer ps t = \<lparr> fetch = (\<lambda>i tok kw. Response 200 (ex_body ps t)), today = (\<lambda>i. ''11/2/2026'') \<rparr>"

definition mystery_first_run :: ui_state where
  "mystery_first_run = handleSearch (env_answer [Some 40] 10) (ex_state ''mystery'' [] [])"

definition mystery_second_run :: ui_state where
  "mystery_second_run = handleSearch (env_answer [Some 55] 8) mystery_first_run"

definition mystery_third_run :: ui_state where
  "mystery_third_run = handleSearch (env_answer [Some 70] 5) mystery_second_run"

definition env_failure_then_empty :: env where
  "env_failure_then_empty =
     \<lparr> fetch = (\<lambda>i tok kw. if i = 0 then Response 500 (JsonThrows []) else Response 200 (ex_body [] 0)),
       today = (\<lambda>i. ''11/2/2026'') \<rparr>"

definition two_keywords :: ui_state where
  "two_keywords = ex_state (''a'' @ [CHR 0x0A] @ ''b'') [] []"

definition ex_result :: "string \<Rightarrow> int \<Rightarrow> int \<Rightarrow> int \<Rightarrow> int \<Rightarrow> int \<Rightarrow> result" where
  "ex_result kw count pop interest dp ds =
     \<lparr> keyword = kw, audiobooks = count, avgPopularity = pop, estimatedTrendsInterest = interest,
       popularityTrend = Some dp, supplyTrend = Some ds, error = None, timestamp = ''11/2/2026'',
       chartX = Some count, chartY = Some interest, chartSize = Some (pop * 2) \<rparr>"

definition ex_failed :: "string \<Rightarrow> string \<Rightarrow> result" where
  "ex_failed kw msg =
     \<lparr> keyword = kw, audiobooks = - 1, avgPopularity = 0, estimatedTrendsInterest = 0,
       popularityTrend = None, supplyTrend = None, error = Some msg, timestamp = ''11/2/2026'',
       chartX = None, chartY = None, chartSize = None \<rparr>"

definition export_example :: "result list" where
  "export_example = [ex_failed ''a'' ''API error: 500'', ex_result ''b'' 12 60 2 15 (- 2)]"

definition env_status :: "int \<Rightarrow> env" where
  "env_status status = \<lparr> fetch = (\<lambda>i tok kw. Response status (JsonThrows [])), today = (\<lambda>i. ''11/2/2026'') \<rparr>"




section \<open>Properties\<close>

subsection \<open>Auxiliary facts\<close>

subsubsection \<open>Rounding, sums and decimal strings\<close>



lemma foldl_plus_sum_list: "foldl (\<lambda>sum r. sum + f r) a xs = a + sum_list (map f xs)"
  for a :: int
  by (induction xs arbitrary: a) simp_all

lemma or_default_Some_0 [simp]: "or_default (Some n) 0 = n"
  by (simp add: or_default_def)

lemma show_nat_digits: "set (show_nat n) \<subseteq> set ''0123456789''"
proof (induction n rule: show_nat.induct)
  case (1 n)
  have d: "''0123456789'' ! k \<in> set ''0123456789''" if "k < 10" for k
    using that by (intro nth_mem) simp
  show ?case
  proof (cases "n < 10")
    case True
    then show ?thesis using d [of n] by (subst show_nat.simps) simp
  next
    case False
    have "n mod 10 < 10" by simp
    then have "''0123456789'' ! (n mod 10) \<in> set ''0123456789''" by (rule d)
    then show ?thesis using False 1 by (subst show_nat.simps) simp
  qed
qed

lemma show_int_0: "show_int 0 = ''0''"
  by (simp add: show_int_def show_nat.simps)

lemma show_int_12: "show_int 12 = ''12''" and show_int_60: "show_int 60 = ''60''"
  and show_int_2: "show_int 2 = ''2''" and show_nat_15: "show_nat 15 = ''15''"
  and show_nat_2: "show_nat 2 = ''2''"
  by (simp_all add: show_int_def show_nat.simps)

subsubsection \<open>Rounding to binary64\<close>

text \<open>
  The rounded value is within \<open>2^-53\<close> of the number, relatively. A quotient of small
  integers that is scaled by 100 therefore rounds as the exact value does unless the exact
  value lies halfway between two integers, and a single quotient always does.
\<close>

lemma rne_err: "\<bar>of_int (rne y) - y\<bar> \<le> 1 / 2"
proof -
  have "of_int \<lfloor>y\<rfloor> \<le> y" "y < of_int \<lfloor>y\<rfloor> + 1" by linarith+
  then show ?thesis
    by (auto simp: rne_def Let_def abs_le_iff)
qed

lemma rne_ge_floor: "\<lfloor>y\<rfloor> \<le> rne y"
  by (simp add: rne_def Let_def)

lemma expo_le: assumes "0 < x" shows "2 powi (expo x) \<le> x"
proof -
  obtain a b where ab: "quotient_of x = (a, b)" by (cases "quotient_of x")
  then have b: "0 < b" and x: "x = of_int a / of_int b"
    using quotient_of_denom_pos quotient_of_div by auto
  with assms have a: "0 < a" by (simp add: zero_less_divide_iff)
  let ?k = "bitlen a - bitlen b"
  show ?thesis
  proof (cases "2 powi ?k \<le> x")
    case True
    then show ?thesis by (simp add: expo_def ab)
  next
    case False
    then have e: "expo x = ?k - 1" by (simp add: expo_def ab)
    have la: "2 ^ nat (bitlen a - 1) \<le> a" using bitlen_bounds [OF a] by simp
    have ub: "b < 2 ^ nat (bitlen b)" using bitlen_bounds [OF b] by simp
    have ba: "1 \<le> bitlen a" using a by (auto simp: bitlen_alt_def)
    have bb: "1 \<le> bitlen b" using b by (auto simp: bitlen_alt_def)
    have "(2::rat) powi (?k - 1) = 2 powi (bitlen a - 1) / 2 powi (bitlen b)"
      by (simp add: power_int_diff)
    also have "\<dots> = 2 ^ nat (bitlen a - 1) / 2 ^ nat (bitlen b)"
      using ba bb by (simp add: power_int_def)
    also have "\<dots> \<le> of_int a / 2 ^ nat (bitlen b)"
    proof -
      have "(2::rat) ^ nat (bitlen a - 1) \<le> of_int a"
        using la by (metis of_int_le_iff of_int_numeral of_int_power)
      then show ?thesis by (simp add: divide_right_mono)
    qed
    also have "\<dots> \<le> of_int a / of_int b"
    proof -
      have "of_int b \<le> (2::rat) ^ nat (bitlen b)"
        using ub by (metis less_imp_le of_int_le_iff of_int_numeral of_int_power)
      then show ?thesis using a b by (simp add: frac_le)
    qed
    finally show ?thesis using e x by simp
  qed
qed

lemma expo_less: assumes "0 < x" shows "x < 2 powi (expo x + 1)"
proof -
  obtain a b where ab: "quotient_of x = (a, b)" by (cases "quotient_of x")
  then have b: "0 < b" and x: "x = of_int a / of_int b"
    using quotient_of_denom_pos quotient_of_div by auto
  with assms have a: "0 < a" by (simp add: zero_less_divide_iff)
  let ?k = "bitlen a - bitlen b"
  show ?thesis
  proof (cases "2 powi ?k \<le> x")
    case False
    then show ?thesis by (simp add: expo_def ab)
  next
    case True
    then have e: "expo x = ?k" by (simp add: expo_def ab)
    have ua: "a < 2 ^ nat (bitlen a)" using bitlen_bounds [OF a] by simp
    have lb: "2 ^ nat (bitlen b - 1) \<le> b" using bitlen_bounds [OF b] by simp
    have ba: "1 \<le> bitlen a" using a by (auto simp: bitlen_alt_def)
    have bb: "1 \<le> bitlen b" using b by (auto simp: bitlen_alt_def)
    have "of_int a / of_int b < (2::rat) ^ nat (bitlen a) / of_int b"
    proof -
      have "of_int a < (2::rat) ^ nat (bitlen a)"
        using ua by (metis of_int_less_iff of_int_numeral of_int_power)
      then show ?thesis using b by (simp add: divide_strict_right_mono)
    qed
    also have "\<dots> \<le> 2 ^ nat (bitlen a) / 2 ^ nat (bitlen b - 1)"
    proof -
      have "(2::rat) ^ nat (bitlen b - 1) \<le> of_int b"
        using lb by (metis of_int_le_iff of_int_numeral of_int_power)
      then show ?thesis by (simp add: frac_le)
    qed
    also have "\<dots> = 2 powi (bitlen a) / 2 powi (bitlen b - 1)"
      using ba bb by (simp add: power_int_def)
    also have "\<dots> = 2 powi (?k + 1)"
      by (simp add: power_int_diff [symmetric] algebra_simps)
    finally show ?thesis using e x by simp
  qed
qed




lemma round_binary64_quotient:
  fixes a b :: int
  assumes "0 \<le> a" and "a < 2 ^ 52" and "0 < b"
  shows "round (binary64 (of_int a / of_int b)) = round (of_int a / of_int b :: rat)"
proof (cases "a = 0")
  case True
  then show ?thesis by (simp add: binary64_def)
next
  case False
  with assms(1) have a: "0 < a" by simp
  define x :: rat where "x = of_int a / of_int b"
  define e where "e = expo x"
  define m where "m = round x"
  have br: "(0::rat) < of_int b" using assms(3) by simp
  have x0: "0 < x" using a assms(3) by (simp add: x_def)
  have pe: "2 powi e \<le> x" unfolding e_def using x0 by (rule expo_le)
  have ar: "(of_int a :: rat) < 2 ^ 52"
    using assms(2) by (metis of_int_less_iff of_int_numeral of_int_power)
  have "(1::rat) \<le> of_int b" using assms(3) by simp
  then have "x \<le> of_int a" using a by (simp add: x_def divide_le_eq_1 pos_divide_le_eq mult_le_cancel_left1)
  with ar have "x < 2 powi 52" by simp
  with pe have "(2::rat) powi e < 2 powi 52" by simp
  then have e52: "e < 52" by (rule power_int_le_imp_less_exp [rotated]) simp_all
  define k where "k = nat (51 - e)"
  have ek: "e = 51 - int k" using e52 by (simp add: k_def)
  define P :: rat where "P = 2 * 2 ^ k"
  have P0: "0 < P" by (simp add: P_def)
  have u: "(2::rat) powi (e - 52) = 1 / P"
  proof -
    have "e - 52 = - int (Suc k)" using ek by simp
    then have "(2::rat) powi (e - 52) = inverse (2 powi int (Suc k))"
      by (simp only: power_int_minus)
    also have "\<dots> = inverse (2 ^ Suc k)" by (simp only: power_int_of_nat)
    finally show ?thesis by (simp add: P_def inverse_eq_divide)
  qed
  have pe': "2 powi e = 2 ^ 52 / P"
  proof -
    have "(2::rat) powi (52 + (e - 52)) = 2 powi 52 * 2 powi (e - 52)"
      by (rule power_int_add) simp
    moreover have "52 + (e - 52) = e" by simp
    ultimately have "(2::rat) powi e = 2 powi 52 * 2 powi (e - 52)" by simp
    then show ?thesis by (simp add: u)
  qed
  have fl: "binary64 x = of_int (rne (x * P)) / P"
    using x0 by (simp add: binary64_def Let_def e_def [symmetric] u)
  have bP: "of_int b < P"
  proof -
    from pe have "2 ^ 52 / P \<le> of_int a / of_int b" by (simp add: pe' x_def)
    then have "2 ^ 52 * of_int b \<le> of_int a * P"
      using br P0 by (simp add: field_simps)
    also have "\<dots> < 2 ^ 52 * P" using ar P0 by simp
    finally show ?thesis by simp
  qed
  have m1: "of_int m \<le> x + 1 / 2" and m2: "x + 1 / 2 < of_int m + 1"
    unfolding m_def round_def by linarith+
  have gap: "1 / (2 * of_int b) \<le> of_int m + 1 / 2 - x"
  proof -
    have "x * (2 * of_int b) < (of_int m + 1 / 2) * (2 * of_int b)"
      using m2 br by simp
    then have "(of_int (2 * a) :: rat) < of_int ((2 * m + 1) * b)"
      using br by (simp add: x_def algebra_simps)
    then have "2 * a < (2 * m + 1) * b" by (simp only: of_int_less_iff)
    then have "2 * a + 1 \<le> (2 * m + 1) * b" by simp
    then have "(of_int (2 * a + 1) :: rat) \<le> of_int ((2 * m + 1) * b)"
      by (simp only: of_int_le_iff)
    then have "2 * of_int a + 1 \<le> (2 * of_int m + 1) * (of_int b :: rat)" by simp
    then show ?thesis using br by (simp add: x_def field_simps)
  qed
  have "1 / 2 < P / (2 * of_int b)" using bP br by simp
  also have "\<dots> = 1 / (2 * of_int b) * P" by simp
  also have "\<dots> \<le> (of_int m + 1 / 2 - x) * P"
    using gap P0 by (simp only: mult_right_mono less_imp_le)
  finally have "x * P + 1 / 2 < (of_int m + 1 / 2) * P" by (simp add: algebra_simps)
  moreover have "of_int (rne (x * P)) \<le> x * P + 1 / 2"
    using rne_err [of "x * P"] by linarith
  ultimately have "of_int (rne (x * P)) < (of_int m + 1 / 2) * P" by linarith
  then have up: "binary64 x + 1 / 2 < of_int (m + 1)"
    using P0 by (simp add: fl field_simps)
  define H where "H = (2 * m - 1) * 2 ^ k"
  have H: "(of_int H :: rat) = (of_int m - 1 / 2) * P"
    by (simp add: H_def P_def algebra_simps)
  have "(of_int m - 1 / 2) * P \<le> x * P" using m1 P0 by simp
  then have "of_int H \<le> x * P" by (simp only: H)
  then have "H \<le> \<lfloor>x * P\<rfloor>" by (simp only: le_floor_iff)
  with rne_ge_floor [of "x * P"] have "H \<le> rne (x * P)" by linarith
  then have "(of_int H :: rat) \<le> of_int (rne (x * P))" by (simp only: of_int_le_iff)
  then have "(of_int m - 1 / 2) * P \<le> of_int (rne (x * P))" by (simp only: H)
  then have down: "of_int m \<le> binary64 x + 1 / 2"
    using P0 by (simp add: fl field_simps)
  from up have "round (binary64 x) < m + 1" unfolding round_def by (simp only: floor_less_iff)
  moreover from down have "m \<le> round (binary64 x)" unfolding round_def by (simp only: le_floor_iff)
  ultimately show ?thesis unfolding m_def x_def by linarith
qed

subsubsection \<open>The loop of \<open>handleSearch\<close>\<close>

text \<open>The entries a run stores are those of \<open>completed\<close>: one per keyword, up to the first 401 answer.\<close>

lemma try_keyword_unauthorized:
  "try_keyword e c i kw = Unauthorized \<longleftrightarrow> answers_401 e c i kw"
  by (auto simp: try_keyword_def answers_401_def response_ok_def split: fetch_outcome.splits body.splits)

lemma request_fails_thrown: "request_fails e c i kw msg \<longleftrightarrow> try_keyword e c i kw = Thrown msg"
  by (auto simp: request_fails_def try_keyword_def split: fetch_outcome.splits body.splits)

lemma keyword_success [simp]: "keyword (success_result e c i kw d) = kw"
  by (simp add: success_result_def Let_def)

lemma keyword_failure [simp]: "keyword (failure_result e i kw m) = kw"
  by (simp add: failure_result_def)

lemma settled_keyword: "settled e c i kw = Some r \<Longrightarrow> keyword r = kw"
  by (auto simp: settled_def try_keyword_def split: attempt.splits fetch_outcome.splits body.splits if_splits)

lemma search_loop_results:
  "results s = acc \<Longrightarrow> results (search_loop e c n i ks acc s) = acc @ completed e c i ks"
proof (induction ks arbitrary: i acc s)
  case Nil
  then show ?case by simp
next
  case (Cons kw ks)
  show ?case
  proof (cases "try_keyword e c i kw")
    case (Thrown msg)
    then show ?thesis using Cons.IH [of "s\<lparr>results := acc @ [failure_result e i kw msg], progress := progress_of i n\<rparr>" "acc @ [failure_result e i kw msg]" "i + 1"]
      by simp
  next
    case Unauthorized
    then show ?thesis using Cons.prems by simp
  next
    case (Pushed r)
    then show ?thesis using Cons.IH [of "s\<lparr>results := acc @ [r], progress := progress_of i n\<rparr>" "acc @ [r]" "i + 1"]
      by simp
  qed
qed

lemma handleSearch_results:
  "trim (accessToken c) \<noteq> [] \<Longrightarrow> keywordList c \<noteq> [] \<Longrightarrow>
   results (handleSearch e c) = completed e c 0 (keywordList c)"
  by (simp add: handleSearch_def search_loop_results)

lemma shift_hyp:
  assumes "\<forall>l<Suc m. P (i + l) ((kw # ks) ! l)"
  shows "\<forall>l<m. P (Suc i + l) (ks ! l)"
proof (intro allI impI)
  fix l assume "l < m"
  then have "Suc l < Suc m" by simp
  with assms have "P (i + Suc l) ((kw # ks) ! Suc l)" by blast
  then show "P (Suc i + l) (ks ! l)" by simp
qed

lemma completed_no_401:
  "\<forall>j<length ks. \<not> answers_401 e c (i + j) (ks ! j) \<Longrightarrow> map keyword (completed e c i ks) = ks"
proof (induction ks arbitrary: i)
  case Nil
  then show ?case by simp
next
  case (Cons kw ks)
  from Cons.prems have h0: "\<not> answers_401 e c i kw" by fastforce
  have "\<forall>j<length ks. \<not> answers_401 e c (Suc i + j) (ks ! j)"
  proof (intro allI impI)
    fix j assume "j < length ks"
    then have "Suc j < length (kw # ks)" by simp
    with Cons.prems have "\<not> answers_401 e c (i + Suc j) ((kw # ks) ! Suc j)" by blast
    then show "\<not> answers_401 e c (Suc i + j) (ks ! j)" by simp
  qed
  then have IH: "map keyword (completed e c (Suc i) ks) = ks" by (rule Cons.IH)
  show ?case
  proof (cases "try_keyword e c i kw")
    case (Thrown msg)
    then show ?thesis using IH by simp
  next
    case Unauthorized
    then show ?thesis using h0 by (simp add: try_keyword_unauthorized)
  next
    case (Pushed r)
    then have "keyword r = kw"
      by (auto simp: try_keyword_def split: fetch_outcome.splits body.splits if_splits)
    then show ?thesis using Pushed IH by simp
  qed
qed

lemma completed_nth:
  "j < length ks \<Longrightarrow> \<forall>l<Suc j. \<not> answers_401 e c (i + l) (ks ! l) \<Longrightarrow>
     j < length (completed e c i ks) \<and> Some (completed e c i ks ! j) = settled e c (i + j) (ks ! j)"
proof (induction ks arbitrary: i j)
  case Nil
  then show ?case by simp
next
  case (Cons kw ks)
  from Cons.prems(2) have h0: "try_keyword e c i kw \<noteq> Unauthorized"
    by (fastforce simp: try_keyword_unauthorized)
  show ?case
  proof (cases j)
    case 0
    then show ?thesis using h0
      by (cases "try_keyword e c i kw") (simp_all add: settled_def)
  next
    case (Suc j')
    with Cons.prems have len: "j' < length ks" by simp
    from Cons.prems(2) Suc have "\<forall>l<Suc j'. \<not> answers_401 e c (Suc i + l) (ks ! l)"
      using shift_hyp [of "Suc j'" "\<lambda>a b. \<not> answers_401 e c a b" i kw ks] by simp
    with len have IH: "j' < length (completed e c (Suc i) ks) \<and>
        Some (completed e c (Suc i) ks ! j') = settled e c (Suc i + j') (ks ! j')"
      by (rule Cons.IH)
    show ?thesis using h0 IH Suc
      by (cases "try_keyword e c i kw") simp_all
  qed
qed

lemma completed_length_401:
  "m < length ks \<Longrightarrow> answers_401 e c (i + m) (ks ! m) \<Longrightarrow>
   \<forall>l<m. \<not> answers_401 e c (i + l) (ks ! l) \<Longrightarrow> length (completed e c i ks) = m"
proof (induction ks arbitrary: i m)
  case Nil
  then show ?case by simp
next
  case (Cons kw ks)
  show ?case
  proof (cases m)
    case 0
    with Cons.prems(2) have "try_keyword e c i kw = Unauthorized"
      by (simp add: try_keyword_unauthorized)
    then show ?thesis using 0 by simp
  next
    case (Suc m')
    with Cons.prems(3) have h0: "try_keyword e c i kw \<noteq> Unauthorized"
      by (fastforce simp: try_keyword_unauthorized)
    from Cons.prems Suc have a: "m' < length ks" and b: "answers_401 e c (Suc i + m') (ks ! m')"
      by simp_all
    from Cons.prems(3) Suc have "\<forall>l<m'. \<not> answers_401 e c (Suc i + l) (ks ! l)"
      using shift_hyp [of m' "\<lambda>a b. \<not> answers_401 e c a b" i kw ks] by simp
    with a b have "length (completed e c (Suc i) ks) = m'" by (rule Cons.IH)
    then show ?thesis using h0 Suc
      by (cases "try_keyword e c i kw") simp_all
  qed
qed

lemma completed_length_le: "length (completed e c i ks) \<le> length ks"
  by (induction ks arbitrary: i) (auto split: attempt.splits)

lemma handleSearch_nth:
  assumes "trim (accessToken c) \<noteq> []" and "j < length (keywordList c)"
    and "\<forall>l<Suc j. \<not> answers_401 e c l (keywordList c ! l)"
  shows "j < length (results (handleSearch e c)) \<and>
         Some (results (handleSearch e c) ! j) = settled e c j (keywordList c ! j)"
proof -
  from assms(2) have "keywordList c \<noteq> []" by auto
  with assms(1) have "results (handleSearch e c) = completed e c 0 (keywordList c)"
    by (rule handleSearch_results)
  then show ?thesis using completed_nth [of j "keywordList c" e c 0] assms by simp
qed

lemma search_loop_aborted:
  "m < length ks \<Longrightarrow> answers_401 e c (i + m) (ks ! m) \<Longrightarrow>
   \<forall>l<m. \<not> answers_401 e c (i + l) (ks ! l) \<Longrightarrow>
   errorText (search_loop e c n i ks acc s) = ''Token expired. Request a new one.'' \<and>
   isSearching (search_loop e c n i ks acc s) = False \<and>
   showMatrix (search_loop e c n i ks acc s) = showMatrix s"
proof (induction ks arbitrary: i m acc s)
  case Nil
  then show ?case by simp
next
  case (Cons kw ks)
  show ?case
  proof (cases m)
    case 0
    with Cons.prems(2) have "try_keyword e c i kw = Unauthorized"
      by (simp add: try_keyword_unauthorized)
    then show ?thesis by simp
  next
    case (Suc m')
    with Cons.prems(3) have h0: "try_keyword e c i kw \<noteq> Unauthorized"
      by (fastforce simp: try_keyword_unauthorized)
    from Cons.prems Suc have a: "m' < length ks" and b: "answers_401 e c (Suc i + m') (ks ! m')"
      by simp_all
    from Cons.prems(3) Suc have d: "\<forall>l<m'. \<not> answers_401 e c (Suc i + l) (ks ! l)"
      using shift_hyp [of m' "\<lambda>a b. \<not> answers_401 e c a b" i kw ks] by simp
    note IH = Cons.IH [OF a b d]
    show ?thesis using h0
      by (cases "try_keyword e c i kw") (simp_all add: IH)
  qed
qed

lemma search_loop_finished:
  "\<forall>l<length ks. \<not> answers_401 e c (i + l) (ks ! l) \<Longrightarrow>
   errorText (search_loop e c n i ks acc s) = errorText s \<and>
   isSearching (search_loop e c n i ks acc s) = False \<and>
   showMatrix (search_loop e c n i ks acc s) = True"
proof (induction ks arbitrary: i acc s)
  case Nil
  then show ?case by simp
next
  case (Cons kw ks)
  from Cons.prems have h0: "try_keyword e c i kw \<noteq> Unauthorized"
    by (fastforce simp: try_keyword_unauthorized)
  from Cons.prems have d: "\<forall>l<length ks. \<not> answers_401 e c (Suc i + l) (ks ! l)"
    using shift_hyp [of "length ks" "\<lambda>a b. \<not> answers_401 e c a b" i kw ks] by simp
  note IH = Cons.IH [OF d]
  show ?case using h0
    by (cases "try_keyword e c i kw") (simp_all add: IH)
qed

lemma search_loop_previousResults:
  "previousResults (search_loop e c n i ks acc s) = previousResults s"
  by (induction ks arbitrary: i acc s) (simp_all split: attempt.splits)

lemma handleSearch_previousResults:
  "trim (accessToken c) \<noteq> [] \<Longrightarrow> keywordList c \<noteq> [] \<Longrightarrow>
   previousResults (handleSearch e c) = results c"
  by (simp add: handleSearch_def search_loop_previousResults)

lemma settled_failed_zero: "settled e c i kw = Some r \<Longrightarrow> failed r \<Longrightarrow> avgPopularity r = 0"
  by (auto simp: settled_def try_keyword_def failure_result_def success_result_def Let_def failed_def truthy_def
      split: attempt.splits fetch_outcome.splits body.splits if_splits)

lemma completed_settled:
  "r \<in> set (completed e c i ks) \<Longrightarrow> \<exists>j kw. settled e c j kw = Some r"
proof (induction ks arbitrary: i)
  case Nil
  then show ?case by simp
next
  case (Cons k ks)
  show ?case
  proof (cases "try_keyword e c i k")
    case (Thrown msg)
    then have "settled e c i k = Some (failure_result e i k msg)" by (simp add: settled_def)
    then show ?thesis using Cons Thrown by auto
  next
    case Unauthorized
    then show ?thesis using Cons.prems by simp
  next
    case (Pushed x)
    then have "settled e c i k = Some x" by (simp add: settled_def)
    then show ?thesis using Cons Pushed by auto
  qed
qed

lemma handleSearch_failed_zero:
  assumes "trim (accessToken c) \<noteq> []" and "keywordList c \<noteq> []"
  shows "\<forall>r\<in>set (results (handleSearch e c)). failed r \<longrightarrow> avgPopularity r = 0"
  using assms completed_settled settled_failed_zero
  by (fastforce simp: handleSearch_results)

subsubsection \<open>The entry of a successful request\<close>

text \<open>The deltas are taken against \<open>previousResults\<close> of the render; the average is the rounded mean of the popularity values when none of them is \<open>0\<close>.\<close>

lemma success_result_trends:
  "popularityTrend (success_result e c i kw d) =
     (case find (\<lambda>r. keyword r = kw) (previousResults c) of
        None \<Rightarrow> Some 0
      | Some p \<Rightarrow> Some (avgPopularity (success_result e c i kw d) - avgPopularity p))"
  "supplyTrend (success_result e c i kw d) =
     (case find (\<lambda>r. keyword r = kw) (previousResults c) of
        None \<Rightarrow> Some 0
      | Some p \<Rightarrow> Some (audiobooks (success_result e c i kw d) - audiobooks p))"
  by (simp_all add: success_result_def Let_def split: option.splits)

lemma avg_popularity_no_items:
  "items p = None \<or> items p = Some [] \<Longrightarrow>
   avgPopularity (success_result e c i kw (SearchData (Some p))) = 50"
  by (auto simp: success_result_def Let_def)

lemma avg_popularity_mean:
  assumes "items p = Some bs" and "bs \<noteq> []" and "\<forall>b\<in>set bs. popularity b \<noteq> Some 0"
  shows "avgPopularity (success_result e c i kw (SearchData (Some p))) =
           round (of_int (sum_list (map (\<lambda>b. case popularity b of None \<Rightarrow> 50 | Some v \<Rightarrow> v) bs))
                  / of_nat (length bs) :: rat)"
proof -
  let ?code = "\<lambda>b. or_default (popularity b) 50"
  let ?spec = "\<lambda>b. case popularity b of None \<Rightarrow> 50 | Some v \<Rightarrow> v"
  have "?code b = ?spec b" if "b \<in> set bs" for b
    using that assms(3) by (auto simp: or_default_def split: option.splits)
  then have same: "map ?code bs = map ?spec bs" by simp
  have "foldl (\<lambda>sum b. sum + ?code b) 0 bs = sum_list (map ?code bs)"
    using foldl_plus_sum_list [of ?code 0 bs] by simp
  also have "\<dots> = sum_list (map ?spec bs)"
    using same by (rule arg_cong)
  finally show ?thesis using assms(1,2)
    by (simp add: success_result_def Let_def)
qed

subsubsection \<open>Summary and ranking\<close>

text \<open>The sort keeps the entries and their number, and leaves a snapshot of failed entries as it is.\<close>

lemma sum_successful:
  "\<forall>r\<in>set rs. failed r \<longrightarrow> avgPopularity r = 0 \<Longrightarrow>
   sum_list (map avgPopularity (filter (\<lambda>r. \<not> failed r) rs)) = sum_list (map avgPopularity rs)"
  by (induction rs) simp_all

lemma summary_mean_of_successful:
  assumes "\<forall>r\<in>set rs. failed r \<longrightarrow> avgPopularity r = 0"
  shows "avgPopularityScore [] = Num 0 \<and>
         (rs \<noteq> [] \<longrightarrow>
            avgPopularityScore rs =
              round_quotient (sum_list (map avgPopularity (filter (\<lambda>r. \<not> failed r) rs)))
                (int (length (filter (\<lambda>r. \<not> failed r) rs)))) \<and>
         (filter (\<lambda>r. \<not> failed r) rs \<noteq> [] \<longrightarrow>
            avgPopularityScore rs =
              Num (round (of_int (sum_list (map avgPopularity (filter (\<lambda>r. \<not> failed r) rs)))
                          / of_nat (length (filter (\<lambda>r. \<not> failed r) rs)) :: rat)))"
proof -
  let ?ok = "filter (\<lambda>r. \<not> failed r) rs"
  have e: "avgPopularityScore [] = Num 0" by (simp add: avgPopularityScore_def)
  have g: "avgPopularityScore rs = round_quotient (sum_list (map avgPopularity ?ok)) (int (length ?ok))"
    if "rs \<noteq> []"
    using that sum_successful [OF assms]
    by (simp add: avgPopularityScore_def foldl_plus_sum_list)
  have h: "avgPopularityScore rs =
      Num (round (of_int (sum_list (map avgPopularity ?ok)) / of_nat (length ?ok) :: rat))"
    if "?ok \<noteq> []"
  proof -
    from that have "rs \<noteq> []" by auto
    moreover from that have "int (length ?ok) \<noteq> 0" by simp
    ultimately show ?thesis using g by (simp add: round_quotient_def)
  qed
  from e g h show ?thesis by blast
qed

lemma summary_all_failed:
  assumes "rs \<noteq> []" and "\<forall>r\<in>set rs. failed r \<and> avgPopularity r = 0"
  shows "avgPopularityScore rs = NaN"
proof -
  from assms(2) have "filter (\<lambda>r. \<not> failed r) rs = []" by (simp add: filter_empty_conv)
  moreover from assms(2) have "sum_list (map avgPopularity rs) = 0" by (induction rs) simp_all
  ultimately show ?thesis using assms(1)
    by (simp add: avgPopularityScore_def foldl_plus_sum_list round_quotient_def)
qed

lemma length_insert_by: "length (insert_by cmp a xs) = Suc (length xs)"
  by (induction xs) simp_all

lemma set_insert_by: "set (insert_by cmp a xs) = insert a (set xs)"
  by (induction xs) auto

lemma length_sortedByOpportunity: "length (sortedByOpportunity rs) = length rs"
  by (induction rs) (simp_all add: sortedByOpportunity_def sort_by_def length_insert_by)

lemma set_sortedByOpportunity: "set (sortedByOpportunity rs) = set rs"
  by (induction rs) (simp_all add: sortedByOpportunity_def sort_by_def set_insert_by)

lemma compare_failed: "failed a \<Longrightarrow> failed b \<Longrightarrow> compareOpportunity a b = Num 0"
  by (simp add: compareOpportunity_def getOpportunityScore_def or_minus_one_def)

lemma sorted_all_failed: "\<forall>r\<in>set rs. failed r \<Longrightarrow> sortedByOpportunity rs = rs"
proof (induction rs)
  case Nil
  then show ?case by (simp add: sortedByOpportunity_def sort_by_def)
next
  case (Cons a rs)
  then have IH: "sort_by compareOpportunity rs = rs" by (simp add: sortedByOpportunity_def)
  have "insert_by compareOpportunity a rs = a # rs"
  proof (cases rs)
    case Nil
    then show ?thesis by simp
  next
    case (Cons b bs)
    with Cons.prems have "compareOpportunity a b = Num 0" by (simp add: compare_failed)
    then show ?thesis using Cons by (simp add: positive_def)
  qed
  then show ?case using IH by (simp add: sortedByOpportunity_def sort_by_def)
qed

lemma zero_score_key: "or_minus_one (Some (Num 0)) = or_minus_one None"
  by (simp add: or_minus_one_def)

subsubsection \<open>Lines of the export\<close>

text \<open>
  The line of a failed entry and the line of a successful entry, cell by cell; the double
  quotes of the export, counted; and where a quoted cell stands in the export.
\<close>

lemma join_headers: "join '','' csv_headers = header_line"
  by (simp add: csv_headers_def header_line_def)

lemma csv_line_failed:
  assumes "failed r" and "error r = Some m"
  shows \<open>csv_line r = ''"'' @ keyword r @ ''","Error","-","-","-","-","'' @ m @ ''"''\<close>
  using assms by (simp add: csv_line_def csv_row_def quote_cell_def)

lemma csv_line_ok:
  assumes "\<not> failed r" and "popularityTrend r = Some p" and "supplyTrend r = Some s"
  shows \<open>csv_line r = ''"'' @ keyword r @ ''","'' @ show_int (audiobooks r) @ ''","'' @
           show_int (avgPopularity r) @ ''","'' @ show_int (estimatedTrendsInterest r) @ ''","'' @
           cell_text (trend_cell (Some p)) @ ''","'' @ cell_text (trend_cell (Some s)) @ ''","OK"''\<close>
  using assms by (simp add: csv_line_def csv_row_def quote_cell_def)

lemma trend_text:
  "cell_text (trend_cell (Some p)) =
     (if 0 < p then ''+'' @ show_nat (nat p) else if p < 0 then ''-'' @ show_nat (nat (- p)) else ''0'')"
  by (simp add: trend_cell_def show_int_def show_int_0 [unfolded show_int_def, simplified])

lemma count_quotes_Nil [simp]: "count_quotes [] = 0"
  by (simp add: count_quotes_def)

lemma count_quotes_append [simp]: "count_quotes (a @ b) = count_quotes a + count_quotes b"
  by (simp add: count_quotes_def)








text \<open>Evaluations used by the worked examples below.\<close>

lemma less_2_cases: "j < (2::nat) \<longleftrightarrow> j = 0 \<or> j = 1" by auto

lemma less_3_cases: "j < (3::nat) \<longleftrightarrow> j = 0 \<or> j = 1 \<or> j = 2" by auto

lemma three_keywords_list: "keywordList three_keywords = [''a'', ''b'', ''c'']"
  by code_simp

lemma three_keywords_token: "trim (accessToken three_keywords) \<noteq> []"
  by code_simp

lemma second_500_no_401:
  "\<forall>j<length (keywordList three_keywords). \<not> answers_401 env_second_500 three_keywords j (keywordList three_keywords ! j)"
  by (simp add: three_keywords_list less_3_cases answers_401_def env_second_500_def)

lemma failed_ex_result [simp]: "\<not> failed (ex_result kw n p d dp ds)"
  by (simp add: failed_def truthy_def ex_result_def)

lemma failed_ex_failed [simp]: "failed (ex_failed kw msg) \<longleftrightarrow> msg \<noteq> []"
  by (simp add: failed_def truthy_def ex_failed_def)

lemma ex_result_fields [simp]:
  "keyword (ex_result kw n p d dp ds) = kw"
  "audiobooks (ex_result kw n p d dp ds) = n"
  "avgPopularity (ex_result kw n p d dp ds) = p"
  "estimatedTrendsInterest (ex_result kw n p d dp ds) = d"
  "popularityTrend (ex_result kw n p d dp ds) = Some dp"
  "supplyTrend (ex_result kw n p d dp ds) = Some ds"
  "error (ex_result kw n p d dp ds) = None"
  by (simp_all add: ex_result_def)

lemma ex_failed_fields [simp]:
  "keyword (ex_failed kw msg) = kw"
  "audiobooks (ex_failed kw msg) = - 1"
  "avgPopularity (ex_failed kw msg) = 0"
  "estimatedTrendsInterest (ex_failed kw msg) = 0"
  "popularityTrend (ex_failed kw msg) = None"
  "supplyTrend (ex_failed kw msg) = None"
  "error (ex_failed kw msg) = Some msg"
  by (simp_all add: ex_failed_def)


subsection \<open>Deltas against the previous run\<close>

text \<open>
  Claim C1 asks that the deltas of a run are taken against the snapshot of the run
  immediately before it. \<open>handleSearch\<close> hands that snapshot to \<open>setPreviousResults\<close>, but
  the lookup reads \<open>previousResults\<close> of the render the call belongs to, which is the
  snapshot stored by the run before. Three runs for the keyword \<open>mystery\<close>, started from the
  initial state, with answers (popularity 40, total 10), (55, 8) and (70, 5): the second
  run finds no prior entry and reports the deltas \<open>0\<close> and \<open>0\<close>, where the claim says \<open>15\<close>
  and \<open>-2\<close>; the third run reports \<open>30\<close> and \<open>-5\<close>, the differences to the first run.
\<close>

theorem rerun_deltas_stale:
  "map (\<lambda>r. (keyword r, avgPopularity r, audiobooks r)) (results mystery_first_run) = [(''mystery'', 40, 10)] \<and>
   map (\<lambda>r. (keyword r, avgPopularity r, audiobooks r)) (results mystery_second_run) = [(''mystery'', 55, 8)] \<and>
   previousResults mystery_first_run = [] \<and>
   map (\<lambda>r. (popularityTrend r, supplyTrend r)) (results mystery_second_run) = [(Some 0, Some 0)] \<and>
   map (\<lambda>r. (keyword r, avgPopularity r, audiobooks r)) (results mystery_third_run) = [(''mystery'', 70, 5)] \<and>
   map (\<lambda>r. (popularityTrend r, supplyTrend r)) (results mystery_third_run) = [(Some 30, Some (- 5))]"
  by code_simp

subsection \<open>A run without a 401 answer\<close>

text \<open>
  Claim C2. With a token and a non-empty list of trimmed keywords, a run in which no request
  is answered with status 401 leaves in \<open>results\<close> exactly one entry per keyword, with the
  keywords in the order of the input; it ends without an error message and with the matrix
  shown.
\<close>

theorem complete_run:
  assumes "trim (accessToken c) \<noteq> []"
    and "keywordList c \<noteq> []"
    and "\<forall>j<length (keywordList c). \<not> answers_401 e c j (keywordList c ! j)"
  shows "map keyword (results (handleSearch e c)) = keywordList c \<and>
         length (results (handleSearch e c)) = length (keywordList c) \<and>
         errorText (handleSearch e c) = [] \<and> showMatrix (handleSearch e c)"
proof -
  have res: "results (handleSearch e c) = completed e c 0 (keywordList c)"
    using assms(1,2) by (rule handleSearch_results)
  have kw: "map keyword (completed e c 0 (keywordList c)) = keywordList c"
    using completed_no_401 [of "keywordList c" e c 0] assms(3) by simp
  then have "length (map keyword (completed e c 0 (keywordList c))) = length (keywordList c)"
    by simp
  then have len: "length (completed e c 0 (keywordList c)) = length (keywordList c)"
    by simp
  have fin: "errorText (handleSearch e c) = [] \<and> showMatrix (handleSearch e c)"
    using assms search_loop_finished [of "keywordList c" e c 0]
    by (simp add: handleSearch_def)
  show ?thesis using kw len fin by (simp add: res)
qed

theorem complete_run_witness:
  "trim (accessToken three_keywords) \<noteq> [] \<and>
   keywordList three_keywords = [''a'', ''b'', ''c''] \<and>
   \<not> answers_401 env_second_500 three_keywords 0 ''a'' \<and>
   \<not> answers_401 env_second_500 three_keywords 1 ''b'' \<and>
   \<not> answers_401 env_second_500 three_keywords 2 ''c'' \<and>
   map keyword (results (handleSearch env_second_500 three_keywords)) = [''a'', ''b'', ''c''] \<and>
   length (results (handleSearch env_second_500 three_keywords)) = 3"
proof -
  have ne: "keywordList three_keywords \<noteq> []" by (simp add: three_keywords_list)
  have no: "\<not> answers_401 env_second_500 three_keywords 0 ''a''"
    "\<not> answers_401 env_second_500 three_keywords 1 ''b''"
    "\<not> answers_401 env_second_500 three_keywords 2 ''c''"
    by (simp_all add: answers_401_def env_second_500_def)
  from complete_run [OF three_keywords_token ne second_500_no_401] no
  show ?thesis by (simp add: three_keywords_list three_keywords_token)
qed

subsection \<open>Abort on status 401\<close>

text \<open>
  Claim C3. If the request for the keyword at index \<open>m\<close> (the \<open>(m+1)\<close>-th keyword) is the
  first one answered with status 401, the run ends with the message
  \<open>Token expired. Request a new one.\<close> in \<open>error\<close>, and \<open>results\<close> holds exactly the \<open>m\<close>
  entries completed before: one for each of the first \<open>m\<close> keywords, in order, each the
  entry that its own request settled, and none for the keyword at index \<open>m\<close> or a later one.
\<close>

theorem aborted_run:
  assumes "trim (accessToken c) \<noteq> []"
    and "m < length (keywordList c)"
    and "answers_401 e c m (keywordList c ! m)"
    and "\<forall>j<m. \<not> answers_401 e c j (keywordList c ! j)"
  shows "errorText (handleSearch e c) = ''Token expired. Request a new one.'' \<and>
         length (results (handleSearch e c)) = m \<and>
         map keyword (results (handleSearch e c)) = take m (keywordList c) \<and>
         (\<forall>j<m. Some (results (handleSearch e c) ! j) = settled e c j (keywordList c ! j))"
proof -
  let ?ks = "keywordList c"
  from assms(2) have ne: "?ks \<noteq> []" by auto
  have res: "results (handleSearch e c) = completed e c 0 ?ks"
    using assms(1) ne by (rule handleSearch_results)
  have len: "length (completed e c 0 ?ks) = m"
    using completed_length_401 [of m ?ks e c 0] assms by simp
  have nth: "Some (completed e c 0 ?ks ! j) = settled e c j (?ks ! j)" if "j < m" for j
  proof -
    from that assms(2) have "j < length ?ks" by simp
    moreover from that assms(4) have "\<forall>l<Suc j. \<not> answers_401 e c (0 + l) (?ks ! l)" by simp
    ultimately show ?thesis using completed_nth [of j ?ks e c 0] by simp
  qed
  have kw: "map keyword (completed e c 0 ?ks) = take m ?ks"
  proof (rule nth_equalityI)
    show "length (map keyword (completed e c 0 ?ks)) = length (take m ?ks)"
      using len assms(2) by simp
  next
    fix j assume "j < length (map keyword (completed e c 0 ?ks))"
    then have jm: "j < m" using len by simp
    then have "keyword (completed e c 0 ?ks ! j) = ?ks ! j"
      using nth [of j] settled_keyword [of e c j "?ks ! j"] by metis
    then show "map keyword (completed e c 0 ?ks) ! j = take m ?ks ! j"
      using jm len by simp
  qed
  have err: "errorText (handleSearch e c) = ''Token expired. Request a new one.''"
    using assms ne search_loop_aborted [of m ?ks e c 0]
    by (simp add: handleSearch_def)
  show ?thesis using err len kw nth by (simp add: res)
qed

theorem aborted_run_witness:
  "trim (accessToken five_keywords) \<noteq> [] \<and>
   keywordList five_keywords = [''a'', ''b'', ''c'', ''d'', ''e''] \<and>
   answers_401 env_third_401 five_keywords 2 (keywordList five_keywords ! 2) \<and>
   \<not> answers_401 env_third_401 five_keywords 0 (keywordList five_keywords ! 0) \<and>
   \<not> answers_401 env_third_401 five_keywords 1 (keywordList five_keywords ! 1) \<and>
   errorText (handleSearch env_third_401 five_keywords) = ''Token expired. Request a new one.'' \<and>
   length (results (handleSearch env_third_401 five_keywords)) = 2 \<and>
   map keyword (results (handleSearch env_third_401 five_keywords)) = [''a'', ''b'']"
proof -
  have kl: "keywordList five_keywords = [''a'', ''b'', ''c'', ''d'', ''e'']" by code_simp
  have h1: "trim (accessToken five_keywords) \<noteq> []" by code_simp
  have h2: "2 < length (keywordList five_keywords)" by (simp add: kl)
  have h3: "answers_401 env_third_401 five_keywords 2 (keywordList five_keywords ! 2)"
    by (simp add: kl answers_401_def env_third_401_def)
  have h4: "\<forall>j<2. \<not> answers_401 env_third_401 five_keywords j (keywordList five_keywords ! j)"
    by (simp add: less_2_cases answers_401_def env_third_401_def)
  have h5: "\<not> answers_401 env_third_401 five_keywords 0 (keywordList five_keywords ! 0)"
    and h6: "\<not> answers_401 env_third_401 five_keywords 1 (keywordList five_keywords ! 1)"
    using h4 by simp_all
  from aborted_run [OF h1 h2 h3 h4] kl h1 h3 h5 h6 show ?thesis by simp
qed

subsection \<open>A request that fails with another error\<close>

text \<open>
  Claim C4, as the code has it. When the request for the keyword at index \<open>i\<close> is reached
  and fails with an error other than status 401, the entry stored at index \<open>i\<close> has
  \<open>audiobooks = -1\<close>, \<open>avgPopularity = 0\<close>, \<open>estimatedTrendsInterest = 0\<close> and the message
  in \<open>error\<close>; the \<open>catch\<close> branch does not set \<open>popularityTrend\<close>, \<open>supplyTrend\<close> or the
  chart fields, so these are \<open>undefined\<close>, not \<open>0\<close>. The loop goes on: every keyword up to
  the first 401 answer, before or after index \<open>i\<close>, gets the entry that its own request
  settles.
\<close>

theorem failed_keyword_recorded:
  assumes "trim (accessToken c) \<noteq> []"
    and "i < length (keywordList c)"
    and "\<forall>j<i. \<not> answers_401 e c j (keywordList c ! j)"
    and "request_fails e c i (keywordList c ! i) msg"
  shows "i < length (results (handleSearch e c)) \<and>
         results (handleSearch e c) ! i =
           \<lparr> keyword = keywordList c ! i, audiobooks = - 1, avgPopularity = 0,
             estimatedTrendsInterest = 0, popularityTrend = None, supplyTrend = None,
             error = Some msg, timestamp = today e i,
             chartX = None, chartY = None, chartSize = None \<rparr> \<and>
         (\<forall>j<length (keywordList c).
            (\<forall>l<Suc j. \<not> answers_401 e c l (keywordList c ! l)) \<longrightarrow>
            j < length (results (handleSearch e c)) \<and>
            Some (results (handleSearch e c) ! j) = settled e c j (keywordList c ! j))"
proof -
  let ?ks = "keywordList c"
  from assms(4) have thrown: "try_keyword e c i (?ks ! i) = Thrown msg"
    by (simp add: request_fails_thrown)
  then have not401: "\<not> answers_401 e c i (?ks ! i)"
    using try_keyword_unauthorized [of e c i "?ks ! i"] by simp
  have upto: "\<forall>l<Suc i. \<not> answers_401 e c l (?ks ! l)"
    using assms(3) not401 by (simp add: less_Suc_eq)
  from handleSearch_nth [OF assms(1,2) upto]
  have a: "i < length (results (handleSearch e c))"
    and b: "Some (results (handleSearch e c) ! i) = settled e c i (?ks ! i)" by simp_all
  from b thrown have "results (handleSearch e c) ! i = failure_result e i (?ks ! i) msg"
    by (simp add: settled_def)
  then have rec: "results (handleSearch e c) ! i =
           \<lparr> keyword = ?ks ! i, audiobooks = - 1, avgPopularity = 0,
             estimatedTrendsInterest = 0, popularityTrend = None, supplyTrend = None,
             error = Some msg, timestamp = today e i,
             chartX = None, chartY = None, chartSize = None \<rparr>"
    by (simp add: failure_result_def)
  have rest: "\<forall>j<length ?ks. (\<forall>l<Suc j. \<not> answers_401 e c l (?ks ! l)) \<longrightarrow>
            j < length (results (handleSearch e c)) \<and>
            Some (results (handleSearch e c) ! j) = settled e c j (?ks ! j)"
    using handleSearch_nth [OF assms(1)] by blast
  from a rec rest show ?thesis by blast
qed

theorem failed_keyword_recorded_witness:
  "trim (accessToken three_keywords) \<noteq> [] \<and>
   keywordList three_keywords = [''a'', ''b'', ''c''] \<and>
   \<not> answers_401 env_second_500 three_keywords 0 ''a'' \<and>
   request_fails env_second_500 three_keywords 1 ''b'' ''API error: 500'' \<and>
   length (results (handleSearch env_second_500 three_keywords)) = 3 \<and>
   results (handleSearch env_second_500 three_keywords) ! 1 =
     \<lparr> keyword = ''b'', audiobooks = - 1, avgPopularity = 0,
       estimatedTrendsInterest = 0, popularityTrend = None, supplyTrend = None,
       error = Some ''API error: 500'', timestamp = ''11/2/2026'',
       chartX = None, chartY = None, chartSize = None \<rparr> \<and>
   results (handleSearch env_second_500 three_keywords) ! 0 =
     \<lparr> keyword = ''a'', audiobooks = 12, avgPopularity = 60,
       estimatedTrendsInterest = 2, popularityTrend = Some 0, supplyTrend = Some 0,
       error = None, timestamp = ''11/2/2026'',
       chartX = Some 12, chartY = Some 2, chartSize = Some 120 \<rparr> \<and>
   results (handleSearch env_second_500 three_keywords) ! 2 =
     \<lparr> keyword = ''c'', audiobooks = 12, avgPopularity = 60,
       estimatedTrendsInterest = 2, popularityTrend = Some 0, supplyTrend = Some 0,
       error = None, timestamp = ''11/2/2026'',
       chartX = Some 12, chartY = Some 2, chartSize = Some 120 \<rparr>"
proof -
  let ?rs = "results (handleSearch env_second_500 three_keywords)"
  have h2: "1 < length (keywordList three_keywords)" by (simp add: three_keywords_list)
  have no0: "\<not> answers_401 env_second_500 three_keywords 0 ''a''"
    by (simp add: answers_401_def env_second_500_def)
  then have h3: "\<forall>j<1. \<not> answers_401 env_second_500 three_keywords j (keywordList three_keywords ! j)"
    by (simp add: three_keywords_list)
  have h4: "request_fails env_second_500 three_keywords 1 ''b'' ''API error: 500''"
    by code_simp
  then have h4': "request_fails env_second_500 three_keywords 1 (keywordList three_keywords ! 1) ''API error: 500''"
    by (simp add: three_keywords_list)
  note main = failed_keyword_recorded [OF three_keywords_token h2 h3 h4']
  from main have r1: "?rs ! 1 =
     \<lparr> keyword = ''b'', audiobooks = - 1, avgPopularity = 0,
       estimatedTrendsInterest = 0, popularityTrend = None, supplyTrend = None,
       error = Some ''API error: 500'', timestamp = ''11/2/2026'',
       chartX = None, chartY = None, chartSize = None \<rparr>"
    by (simp add: three_keywords_list env_second_500_def)
  have all: "\<forall>l<Suc j. \<not> answers_401 env_second_500 three_keywords l (keywordList three_keywords ! l)"
    if "j < 3" for j
    using second_500_no_401 that by (simp add: three_keywords_list)
  from main have rest: "j < length ?rs \<and> Some (?rs ! j) = settled env_second_500 three_keywords j (keywordList three_keywords ! j)"
    if "j < 3" for j
    using that all [OF that] by (simp add: three_keywords_list)
  have s0: "settled env_second_500 three_keywords 0 ''a'' = Some \<lparr> keyword = ''a'', audiobooks = 12, avgPopularity = 60,
       estimatedTrendsInterest = 2, popularityTrend = Some 0, supplyTrend = Some 0,
       error = None, timestamp = ''11/2/2026'',
       chartX = Some 12, chartY = Some 2, chartSize = Some 120 \<rparr>"
    by code_simp
  have s2: "settled env_second_500 three_keywords 2 ''c'' = Some \<lparr> keyword = ''c'', audiobooks = 12, avgPopularity = 60,
       estimatedTrendsInterest = 2, popularityTrend = Some 0, supplyTrend = Some 0,
       error = None, timestamp = ''11/2/2026'',
       chartX = Some 12, chartY = Some 2, chartSize = Some 120 \<rparr>"
    by code_simp
  from rest [of 0] s0 have r0: "?rs ! 0 = \<lparr> keyword = ''a'', audiobooks = 12, avgPopularity = 60,
       estimatedTrendsInterest = 2, popularityTrend = Some 0, supplyTrend = Some 0,
       error = None, timestamp = ''11/2/2026'',
       chartX = Some 12, chartY = Some 2, chartSize = Some 120 \<rparr>"
    by (simp add: three_keywords_list)
  from rest [of 2] s2 have r2: "?rs ! 2 = \<lparr> keyword = ''c'', audiobooks = 12, avgPopularity = 60,
       estimatedTrendsInterest = 2, popularityTrend = Some 0, supplyTrend = Some 0,
       error = None, timestamp = ''11/2/2026'',
       chartX = Some 12, chartY = Some 2, chartSize = Some 120 \<rparr>"
    by (simp add: three_keywords_list)
  have len: "length ?rs = 3"
    using handleSearch_results [OF three_keywords_token, of env_second_500]
      completed_length_le [of env_second_500 three_keywords 0 "keywordList three_keywords"]
      rest [of 2]
    by (simp add: three_keywords_list)
  show ?thesis using three_keywords_token no0 h4 len r1 r0 r2
    by (simp only: three_keywords_list simp_thms)
qed

text \<open>
  The claim as stated asks for \<open>popularityDelta = 0\<close> and \<open>supplyDelta = 0\<close> in a failed
  entry. With status 500 on the second of three keywords, the second entry has neither field.
\<close>

theorem failed_keyword_trends_counterexample:
  "request_fails env_second_500 three_keywords 1 ''b'' ''API error: 500'' \<and>
   keyword (results (handleSearch env_second_500 three_keywords) ! 1) = ''b'' \<and>
   popularityTrend (results (handleSearch env_second_500 three_keywords) ! 1) \<noteq> Some 0 \<and>
   supplyTrend (results (handleSearch env_second_500 three_keywords) ! 1) \<noteq> Some 0"
  by code_simp

subsection \<open>Average popularity of the returned items\<close>

text \<open>
  Claim C5 asks for the rounded mean of the items' popularity values, with \<open>50\<close> in place
  of a missing value. The code takes \<open>book.popularity || 50\<close>, which also puts \<open>50\<close> in
  place of a popularity that is present and \<open>0\<close>: one item of popularity \<open>0\<close> gives the
  average \<open>50\<close>, not \<open>0\<close>, and items of popularity \<open>0\<close> and \<open>100\<close> give \<open>75\<close>, not \<open>50\<close>.
\<close>

theorem zero_popularity_counts_as_50:
  "avgPopularity (success_result e c i kw (SearchData (Some (Page (Some [Book (Some 0)]) (Some 1))))) = 50 \<and>
   avgPopularity (success_result e c i kw (SearchData (Some (Page (Some [Book (Some 0), Book (Some 100)]) (Some 2))))) = 75 \<and>
   map avgPopularity (results (handleSearch (env_answer [Some 0] 1) (ex_state ''mystery'' [] []))) = [50]"
proof -
  have a: "avgPopularity (success_result e c i kw (SearchData (Some (Page (Some [Book (Some 0)]) (Some 1))))) = 50"
    by (simp add: success_result_def or_default_def Let_def)
  have b: "avgPopularity (success_result e c i kw (SearchData (Some (Page (Some [Book (Some 0), Book (Some 100)]) (Some 2))))) = 75"
    by (simp add: success_result_def or_default_def Let_def)
  have c: "map avgPopularity (results (handleSearch (env_answer [Some 0] 1) (ex_state ''mystery'' [] []))) = [50]"
    by code_simp
  from a b c show ?thesis by simp
qed

subsection \<open>Ranking by opportunity score\<close>

text \<open>
  Claim C6 asks that a successful entry whose opportunity score is \<open>0\<close> ranks above every
  failed entry. The comparator takes \<open>getOpportunityScore(a) || -1\<close>, which turns the score
  \<open>0\<close> into \<open>-1\<close> as it does \<open>null\<close>, so the two compare equal and keep their order. A run
  over the keywords \<open>a\<close> and \<open>b\<close>, where the request for \<open>a\<close> fails with status 500 and the
  one for \<open>b\<close> finds nothing (total \<open>0\<close>, score \<open>0\<close>), ranks the failed \<open>a\<close> first.
\<close>

theorem zero_score_not_above_failed:
  "map keyword (results (handleSearch env_failure_then_empty two_keywords)) = [''a'', ''b''] \<and>
   map getOpportunityScore (results (handleSearch env_failure_then_empty two_keywords)) = [None, Some (Num 0)] \<and>
   map failed (results (handleSearch env_failure_then_empty two_keywords)) = [True, False] \<and>
   map keyword (sortedByOpportunity (results (handleSearch env_failure_then_empty two_keywords))) = [''a'', ''b'']"
  by code_simp

subsection \<open>Opportunity score\<close>




subsection \<open>Average popularity of a snapshot\<close>

text \<open>
  Claim C8 asks for the rounded mean of \<open>avgPopularity\<close> over the successful entries, and
  for \<open>0\<close> when there are no entries. The code guards the division with \<open>results.length > 0\<close>
  but divides by the number of successful entries. After a run in which every request
  failed (status 500 for both keywords) the snapshot is not empty, the divisor is \<open>0\<close>, and
  the value is \<open>NaN\<close>: neither a rounded mean nor \<open>0\<close>. With a successful entry in the
  snapshot the value is the rounded mean (\<open>summary_mean_of_successful\<close>).
\<close>

theorem all_failed_average_is_nan:
  "map keyword (results (handleSearch (env_status 500) two_keywords)) = [''a'', ''b''] \<and>
   map failed (results (handleSearch (env_status 500) two_keywords)) = [True, True] \<and>
   avgPopularityScore (results (handleSearch (env_status 500) two_keywords)) = NaN"
  by code_simp

subsection \<open>The rows of the export\<close>

text \<open>
  Claim C9, as the code has it. The export is the line of the seven column names, joined
  by commas and without quotes, followed by one line per entry, all joined by line feeds.
  The line of an entry has seven cells, each between double quotes. For a failed entry they
  are the keyword, \<open>Error\<close>, four times \<open>-\<close>, and the error text. For a successful entry
  they are the keyword, the three numbers, the two trends and \<open>OK\<close>. A trend is rendered
  with a leading \<open>+\<close> when positive, as the negative number when negative, and as \<open>0\<close>
  when zero (\<open>show_nat\<close> yields digits only, \<open>show_nat_digits\<close>).
\<close>

theorem csv_export:
  \<open>downloadCSV rs =
     join [CHR 0x0A]
       (''Keyword,Audiobooks Found,Avg Popularity,Estimated Trends Interest,Popularity Trend,Supply Trend,Status''
        # map csv_line rs) \<and>
   (\<forall>r\<in>set rs.
      length (csv_row r) = 7 \<and>
      csv_line r = join '','' (map (\<lambda>c. ''"'' @ cell_text c @ ''"'') (csv_row r)) \<and>
      (\<forall>m. failed r \<and> error r = Some m \<longrightarrow>
         csv_line r = ''"'' @ keyword r @ ''","Error","-","-","-","-","'' @ m @ ''"'') \<and>
      (\<forall>p s. \<not> failed r \<and> popularityTrend r = Some p \<and> supplyTrend r = Some s \<longrightarrow>
         csv_line r = ''"'' @ keyword r @ ''","'' @ show_int (audiobooks r) @ ''","'' @
           show_int (avgPopularity r) @ ''","'' @ show_int (estimatedTrendsInterest r) @ ''","'' @
           cell_text (trend_cell (Some p)) @ ''","'' @ cell_text (trend_cell (Some s)) @ ''","OK"'')) \<and>
   (0 < d \<longrightarrow> cell_text (trend_cell (Some d)) = ''+'' @ show_nat (nat d)) \<and>
   (d < 0 \<longrightarrow> cell_text (trend_cell (Some d)) = ''-'' @ show_nat (nat (- d))) \<and>
   cell_text (trend_cell (Some 0)) = ''0''\<close>
proof -
  have a: "downloadCSV rs = join [CHR 0x0A] (header_line # map csv_line rs)"
    by (simp add: downloadCSV_def join_headers)
  have b: "0 < d \<longrightarrow> cell_text (trend_cell (Some d)) = ''+'' @ show_nat (nat d)"
    and c: "d < 0 \<longrightarrow> cell_text (trend_cell (Some d)) = ''-'' @ show_nat (nat (- d))"
    and z: "cell_text (trend_cell (Some 0)) = ''0''"
    by (simp_all add: trend_text)
  have q: \<open>length (csv_row r) = 7 \<and>
      csv_line r = join '','' (map (\<lambda>c. ''"'' @ cell_text c @ ''"'') (csv_row r))\<close> for r
    by (simp add: csv_row_def csv_line_def quote_cell_def [abs_def])
  from a b c z q csv_line_failed csv_line_ok show ?thesis
    unfolding header_line_def by blast
qed

theorem csv_export_witness:
  \<open>failed (ex_failed ''a'' ''API error: 500'') \<and> \<not> failed (ex_result ''b'' 12 60 2 15 (- 2)) \<and>
   downloadCSV export_example =
     ''Keyword,Audiobooks Found,Avg Popularity,Estimated Trends Interest,Popularity Trend,Supply Trend,Status''
     @ [CHR 0x0A] @ ''"a","Error","-","-","-","-","API error: 500"''
     @ [CHR 0x0A] @ ''"b","12","60","2","+15","-2","OK"''\<close>
proof -
  let ?f = "ex_failed ''a'' ''API error: 500''" and ?g = "ex_result ''b'' 12 60 2 15 (- 2)"
  note main = csv_export [of export_example 15] csv_export [of export_example "- 2"]
  have f: "failed ?f" and g: "\<not> failed ?g" by simp_all
  from main(1) have dl: "downloadCSV export_example =
     join [CHR 0x0A]
       (''Keyword,Audiobooks Found,Avg Popularity,Estimated Trends Interest,Popularity Trend,Supply Trend,Status''
        # map csv_line export_example)" by blast
  from main(1) have up: "cell_text (trend_cell (Some 15)) = ''+'' @ show_nat (nat 15)" by simp
  from main(2) have down: "cell_text (trend_cell (Some (- 2))) = ''-'' @ show_nat (nat (- (- 2)))" by simp
  have "?f \<in> set export_example" by (simp add: export_example_def)
  with main(1) f have lf: \<open>csv_line ?f = ''"a","Error","-","-","-","-","API error: 500"''\<close>
    by fastforce
  have "?g \<in> set export_example" by (simp add: export_example_def)
  with main(1) g have \<open>csv_line ?g = ''"'' @ keyword ?g @ ''","'' @ show_int (audiobooks ?g) @ ''","'' @
           show_int (avgPopularity ?g) @ ''","'' @ show_int (estimatedTrendsInterest ?g) @ ''","'' @
           cell_text (trend_cell (Some 15)) @ ''","'' @ cell_text (trend_cell (Some (- 2))) @ ''","OK"''\<close>
    by fastforce
  then have lg: \<open>csv_line ?g = ''"b","12","60","2","+15","-2","OK"''\<close>
    by (simp add: up down show_int_12 show_int_60 show_int_2 show_nat_15 show_nat_2)
  have ls: "map csv_line export_example = [csv_line ?f, csv_line ?g]"
    by (simp add: export_example_def)
  show ?thesis using f g by (simp add: dl ls lf lg)
qed

text \<open>
  The claim as stated has every cell of every row between double quotes. The first row of
  every export is the header, which \<open>headers.join(',')\<close> builds without quotes: the export
  of the empty snapshot is the header alone and holds no double quote.
\<close>

theorem csv_header_unquoted:
  "downloadCSV [] =
     ''Keyword,Audiobooks Found,Avg Popularity,Estimated Trends Interest,Popularity Trend,Supply Trend,Status'' \<and>
   CHR 0x22 \<notin> set (downloadCSV []) \<and>
   take 8 (downloadCSV export_example) = ''Keyword,''"
  by code_simp

subsection \<open>No escaping in the export\<close>



end
